theory Spec2Isabelle
  imports Main
begin

section \<open>Python strings\<close>

text \<open>
  A Python \<open>str\<close> is a sequence of Unicode code points; it is modelled as the list of
  its code points. \<open>str\<close> writes an ASCII literal of the source.
\<close>

type_synonym pystr = "nat list"

definition str :: "string \<Rightarrow> pystr" where
  "str s = map of_char s"

text \<open>The code points for which \<open>str.isspace\<close> holds: the ones \<open>str.strip()\<close> removes.\<close>

definition isspace :: "nat \<Rightarrow> bool" where
  "isspace c \<longleftrightarrow>
     (9 \<le> c \<and> c \<le> 13) \<or> (28 \<le> c \<and> c \<le> 32) \<or> c = 133 \<or> c = 160 \<or> c = 5760 \<or>
     (8192 \<le> c \<and> c \<le> 8202) \<or> c = 8232 \<or> c = 8233 \<or> c = 8239 \<or> c = 8287 \<or> c = 12288"

definition strip :: "pystr \<Rightarrow> pystr" where
  "strip s = rev (dropWhile isspace (rev (dropWhile isspace s)))"

text \<open>\<open>s.split(sep)\<close> for a separator of one code point: every occurrence cuts.\<close>

fun split_on :: "nat \<Rightarrow> pystr \<Rightarrow> pystr list" where
  "split_on c [] = [[]]"
| "split_on c (x # xs) =
     (if x = c then [] # split_on c xs
      else (case split_on c xs of [] \<Rightarrow> [[x]] | w # ws \<Rightarrow> (x # w) # ws))"

fun join :: "pystr \<Rightarrow> pystr list \<Rightarrow> pystr" where
  "join sep [] = []"
| "join sep [x] = x"
| "join sep (x # y # ys) = x @ sep @ join sep (y # ys)"

text \<open>The seven theme names of \<open>THEMES\<close>, as code points.\<close>

definition THEMES :: "pystr list" where
  "THEMES =
     [[49688, 47732, 183, 54872, 44221],
      [47800, 183, 50640, 45320, 51648],
      [51221, 49888, 183, 53468, 46020],
      [49324, 54924, 183, 44288, 44228],
      [51116, 51221, 183, 49548, 48708],
      [52285, 51032, 183, 54617, 49845],
      [51221, 52404, 49457, 183, 51088, 44592, 54364, 54788]]"

section \<open>The two JSON documents\<close>

text \<open>
  The \<open>val\<close> of an entry is the boolean of a check or the text of a log; \<open>VNone\<close> is an
  entry without the key (\<open>r.get("val")\<close> is \<open>None\<close>).
\<close>

datatype val = VBool bool | VStr pystr | VNone

fun is_str :: "val \<Rightarrow> bool" where
  "is_str (VStr _) = True"
| "is_str _ = False"

record entry =
  e_id :: int
  e_ts :: pystr
  e_val :: val

text \<open>
  A habit is a dict; \<open>id\<close> and \<open>title\<close> are read with \<open>h[...]\<close>, the other keys with
  \<open>h.get\<close>, so they may be absent (\<open>None\<close>).
\<close>

record habit =
  h_id :: int
  h_title :: pystr
  h_tags :: "pystr list option"
  h_type :: "pystr option"
  h_active :: "bool option"

text \<open>\<open>h.get("type", "check")\<close>, \<open>h.get("active", True)\<close> and \<open>h.get("tags") or []\<close>.\<close>

definition habit_type :: "habit \<Rightarrow> pystr" where
  "habit_type h = (case h_type h of None \<Rightarrow> str ''check'' | Some t \<Rightarrow> t)"

definition habit_active :: "habit \<Rightarrow> bool" where
  "habit_active h = (case h_active h of None \<Rightarrow> True | Some a \<Rightarrow> a)"

definition habit_tags :: "habit \<Rightarrow> pystr list" where
  "habit_tags h = (case h_tags h of None \<Rightarrow> [] | Some ts \<Rightarrow> ts)"

text \<open>
  The state of \<open>HabitTUI\<close>: the list under \<open>habits_json["habits"]\<close>, the dict under
  \<open>entries_json["days"]\<close> (\<open>None\<close> when the key is absent), the key of the current date
  (\<open>day_key()\<close>) and the filter tag. \<open>Store.save\<close> writes both documents to disk and leaves
  this state as it is.
\<close>

record app =
  habits_json :: "habit list"
  entries_json :: "(pystr \<rightharpoonup> entry list) option"
  day_key :: pystr
  filter_tag :: "pystr option"

text \<open>\<open>entries_json.get("days", {})\<close> and \<open>.get(dkey, [])\<close> on it.\<close>

definition days_of :: "app \<Rightarrow> (pystr \<rightharpoonup> entry list)" where
  "days_of s = (case entries_json s of None \<Rightarrow> Map.empty | Some m \<Rightarrow> m)"

definition day_entries :: "app \<Rightarrow> pystr \<Rightarrow> entry list" where
  "day_entries s d = (case days_of s d of None \<Rightarrow> [] | Some arr \<Rightarrow> arr)"

text \<open>\<open>dict.setdefault\<close>: the value now under the key, and the dict.\<close>

definition setdefault :: "('k \<rightharpoonup> 'v) \<Rightarrow> 'k \<Rightarrow> 'v \<Rightarrow> 'v \<times> ('k \<rightharpoonup> 'v)" where
  "setdefault m k d = (case m k of None \<Rightarrow> (d, m(k \<mapsto> d)) | Some v \<Rightarrow> (v, m))"

section \<open>Store\<close>

definition next_id :: "habit list \<Rightarrow> int" where
  "next_id habits =
     (case map h_id habits of [] \<Rightarrow> 1 | x # xs \<Rightarrow> fold max xs x + 1)"

section \<open>HabitTUI: helpers\<close>

definition today_done_ids :: "app \<Rightarrow> int set" where
  "today_done_ids s =
     fold (\<lambda>r done. if e_val r = VBool True \<or> is_str (e_val r) then insert (e_id r) done else done)
       (day_entries s (day_key s)) {}"

text \<open>
  A row of the table: the mark (\<open>True\<close> for the check mark), the id, the type, the title and
  the joined tags. The id is kept as the integer that \<open>str\<close> prints and \<open>int\<close> reads back.
  \<open>refresh_table\<close> gives the rows in the order they are added to the table; the status
  line under the table is left out.
\<close>

record row =
  r_mark :: bool
  r_id :: int
  r_type :: pystr
  r_title :: pystr
  r_tags :: pystr

definition table_row :: "int set \<Rightarrow> pystr option \<Rightarrow> habit \<Rightarrow> row list" where
  "table_row done ftag h =
     (if \<not> habit_active h then []
      else if (case ftag of None \<Rightarrow> False | Some t \<Rightarrow> t \<noteq> [] \<and> t \<notin> set (habit_tags h)) then []
      else [\<lparr>r_mark = (h_id h \<in> done), r_id = h_id h, r_type = habit_type h,
             r_title = h_title h, r_tags = join (str '','') (habit_tags h)\<rparr>])"

definition refresh_table :: "app \<Rightarrow> row list" where
  "refresh_table s =
     (let done = today_done_ids s
      in concat (map (table_row done (filter_tag s)) (sort_key h_id (habits_json s))))"

section \<open>HabitTUI: actions\<close>

text \<open>
  \<open>cursor\<close> is the id in the row under the cursor (\<open>None\<close>: no row), \<open>now\<close> the time of the
  call. \<open>toggle_entries\<close> is the branch of a check habit on the entries of the day:
  \<open>arr.remove(ex)\<close> removes the first element equal to \<open>ex\<close>. For a habit of another type
  the action opens the log screen and returns.
\<close>

definition toggle_entries :: "int \<Rightarrow> pystr \<Rightarrow> entry list \<Rightarrow> entry list" where
  "toggle_entries hid now arr =
     (case find (\<lambda>r. e_id r = hid \<and> e_val r = VBool True) arr of
        Some ex \<Rightarrow> remove1 ex arr
      | None \<Rightarrow> arr @ [\<lparr>e_id = hid, e_ts = now, e_val = VBool True\<rparr>])"

definition action_toggle_check :: "int option \<Rightarrow> pystr \<Rightarrow> app \<Rightarrow> app" where
  "action_toggle_check cursor now s =
     (case cursor of
        None \<Rightarrow> s
      | Some hid \<Rightarrow>
          (case find (\<lambda>x. h_id x = hid) (habits_json s) of
             None \<Rightarrow> s
           | Some habit \<Rightarrow>
               (let dkey = day_key s;
                    (arr, days) = setdefault (days_of s) dkey []
                in if habit_type habit = str ''check''
                   then s\<lparr>entries_json := Some (days(dkey \<mapsto> toggle_entries hid now arr))\<rparr>
                   else s\<lparr>entries_json := Some days\<rparr>)))"

definition action_delete_habit :: "int option \<Rightarrow> app \<Rightarrow> app" where
  "action_delete_habit cursor s =
     (case cursor of
        None \<Rightarrow> s
      | Some hid \<Rightarrow>
          s\<lparr>habits_json := filter (\<lambda>x. h_id x \<noteq> hid) (habits_json s),
            entries_json :=
              map_option (\<lambda>days d. map_option (filter (\<lambda>r. e_id r \<noteq> hid)) (days d))
                (entries_json s)\<rparr>)"

text \<open>\<open>THEMES.index(x)\<close> for an \<open>x\<close> in the list.\<close>

fun index_of :: "'a list \<Rightarrow> 'a \<Rightarrow> nat" where
  "index_of [] x = 0"
| "index_of (y # ys) x = (if y = x then 0 else Suc (index_of ys x))"

definition action_toggle_filter :: "app \<Rightarrow> app" where
  "action_toggle_filter s =
     (case filter_tag s of
        None \<Rightarrow> s\<lparr>filter_tag := Some (THEMES ! 0)\<rparr>
      | Some tag \<Rightarrow>
          (let idx = (if tag \<in> set THEMES then int (index_of THEMES tag) else - 1)
           in s\<lparr>filter_tag :=
                  (if idx \<ge> 0 then Some (THEMES ! nat ((idx + 1) mod int (length THEMES)))
                   else None)\<rparr>))"

text \<open>
  A line of the report, before it is formatted: the header with the day key, the line of
  a check (id, title), the line of a log (id, title, text, time).
\<close>

datatype report_line =
  Header pystr
| CheckLine int pystr
| LogLine int pystr pystr pystr

definition group_by_id :: "entry list \<Rightarrow> (int \<rightharpoonup> entry list)" where
  "group_by_id arr =
     fold (\<lambda>r by_id. by_id(e_id r \<mapsto> (case by_id (e_id r) of None \<Rightarrow> [] | Some l \<Rightarrow> l) @ [r]))
       arr Map.empty"

definition habit_lines :: "(int \<rightharpoonup> entry list) \<Rightarrow> habit \<Rightarrow> report_line list" where
  "habit_lines by_id h =
     (if \<not> habit_active h then []
      else
        (let logs = (case by_id (h_id h) of None \<Rightarrow> [] | Some l \<Rightarrow> l)
         in if habit_type h = str ''check'' then
              (if list_ex (\<lambda>r. e_val r = VBool True) logs
               then [CheckLine (h_id h) (h_title h)] else [])
            else
              concat (map (\<lambda>r. case e_val r of
                                  VStr v \<Rightarrow> [LogLine (h_id h) (h_title h) v (e_ts r)]
                                | _ \<Rightarrow> []) logs)))"

definition action_show_report :: "app \<Rightarrow> report_line list" where
  "action_show_report s =
     (let dkey = day_key s;
          arr = day_entries s dkey;
          by_id = group_by_id arr
      in Header dkey # concat (map (habit_lines by_id) (sort_key h_id (habits_json s))))"

section \<open>The edit and log screens\<close>

datatype button = Save | Cancel

text \<open>
  \<open>EditScreen\<close> holds the dict of the habit it edits, which is an element of the habit
  list: the model holds its position in the list (\<open>None\<close>: the screen adds a habit).
  \<open>action_edit_habit\<close> gives the position of the first habit with the id of the row, the
  one the screen is opened with, or \<open>None\<close> when it opens no screen.
\<close>

fun find_index :: "('a \<Rightarrow> bool) \<Rightarrow> 'a list \<Rightarrow> nat option" where
  "find_index P [] = None"
| "find_index P (x # xs) = (if P x then Some 0 else map_option Suc (find_index P xs))"

definition action_edit_habit :: "int option \<Rightarrow> app \<Rightarrow> nat option" where
  "action_edit_habit cursor s =
     (case cursor of
        None \<Rightarrow> None
      | Some hid \<Rightarrow> find_index (\<lambda>x. h_id x = hid) (habits_json s))"

definition EditScreen_on_button_pressed ::
    "button \<Rightarrow> nat option \<Rightarrow> pystr \<Rightarrow> pystr \<Rightarrow> pystr \<Rightarrow> app \<Rightarrow> app" where
  "EditScreen_on_button_pressed b habit title_input tags_input type_input s =
     (case b of
        Cancel \<Rightarrow> s
      | Save \<Rightarrow>
          (let title = strip title_input;
               tags = map strip (filter (\<lambda>t. strip t \<noteq> []) (split_on 44 tags_input));
               typ = (if strip type_input \<noteq> [] then strip type_input else str ''check'');
               hjson = habits_json s
           in case habit of
                Some i \<Rightarrow>
                  (if i < length hjson
                   then s\<lparr>habits_json :=
                            hjson[i := (hjson ! i)\<lparr>h_title := title, h_tags := Some tags,
                                                   h_type := Some typ\<rparr>]\<rparr>
                   else s)
              | None \<Rightarrow>
                  s\<lparr>habits_json :=
                      hjson @ [\<lparr>h_id = next_id hjson, h_title = title, h_tags = Some tags,
                                h_type = Some typ, h_active = Some True\<rparr>]\<rparr>))"

definition LogInputScreen_on_button_pressed ::
    "button \<Rightarrow> habit \<Rightarrow> pystr \<Rightarrow> pystr \<Rightarrow> app \<Rightarrow> app" where
  "LogInputScreen_on_button_pressed b habit text_input now s =
     (case b of
        Cancel \<Rightarrow> s
      | Save \<Rightarrow>
          (let txt = strip text_input
           in if txt \<noteq> [] then
                (let dkey = day_key s;
                     (arr, days) = setdefault (days_of s) dkey []
                 in s\<lparr>entries_json :=
                        Some (days(dkey \<mapsto> arr @ [\<lparr>e_id = h_id habit, e_ts = now, e_val = VStr txt\<rparr>]))\<rparr>)
              else s))"

section \<open>Observations and sample states\<close>

text \<open>
  The completion state of a habit on a day: some entry of the day has the habit's id and
  the boolean \<open>True\<close> as its value.
\<close>

definition check_done :: "app \<Rightarrow> int \<Rightarrow> pystr \<Rightarrow> bool" where
  "check_done s hid d = list_ex (\<lambda>r. e_id r = hid \<and> e_val r = VBool True) (day_entries s d)"

definition sleep_habit :: habit where
  "sleep_habit = \<lparr>h_id = 1, h_title = str ''Sleep by 11'', h_tags = Some [],
                   h_type = Some (str ''check''), h_active = Some True\<rparr>"

definition checked_once :: app where
  "checked_once =
     \<lparr>habits_json = [sleep_habit],
      entries_json = Some [str ''2024-01-01'' \<mapsto>
        [\<lparr>e_id = 1, e_ts = str ''07:00:00'', e_val = VBool True\<rparr>]],
      day_key = str ''2024-01-01'', filter_tag = None\<rparr>"

definition checked_twice :: app where
  "checked_twice =
     \<lparr>habits_json = [sleep_habit],
      entries_json = Some [str ''2024-01-01'' \<mapsto>
        [\<lparr>e_id = 1, e_ts = str ''07:00:00'', e_val = VBool True\<rparr>,
         \<lparr>e_id = 1, e_ts = str ''08:00:00'', e_val = VBool True\<rparr>]],
      day_key = str ''2024-01-01'', filter_tag = None\<rparr>"

text \<open>The habit id a report line names.\<close>

fun line_id :: "report_line \<Rightarrow> int option" where
  "line_id (Header _) = None"
| "line_id (CheckLine i _) = Some i"
| "line_id (LogLine i _ _ _) = Some i"

definition mood_habit :: habit where
  "mood_habit = \<lparr>h_id = 2, h_title = str ''Mood'', h_tags = Some [],
                  h_type = Some (str ''log''), h_active = Some True\<rparr>"

definition two_habits :: app where
  "two_habits =
     \<lparr>habits_json = [sleep_habit, mood_habit],
      entries_json = Some [str ''2024-01-01'' \<mapsto>
        [\<lparr>e_id = 1, e_ts = str ''07:00:00'', e_val = VBool True\<rparr>,
         \<lparr>e_id = 2, e_ts = str ''08:00:00'', e_val = VStr (str ''great'')\<rparr>,
         \<lparr>e_id = 2, e_ts = str ''21:00:00'', e_val = VStr (str ''tired'')\<rparr>]],
      day_key = str ''2024-01-01'', filter_tag = None\<rparr>"

text \<open>The text of a string value.\<close>

fun val_text :: "val \<Rightarrow> pystr" where
  "val_text (VStr v) = v"
| "val_text _ = []"

text \<open>
  The report as the specification words it: the header, then for each active habit in
  ascending id order the line of a check habit if some entry of the day with its id has
  the value \<open>True\<close>, and for a habit of another type one line per string-valued entry of the
  day with its id, in the stored order.
\<close>

definition build_report_spec :: "habit list \<Rightarrow> entry list \<Rightarrow> pystr \<Rightarrow> report_line list" where
  "build_report_spec habits arr D =
     Header D #
     concat (map
       (\<lambda>h. if habit_type h = str ''check''
            then (if \<exists>r \<in> set arr. e_id r = h_id h \<and> e_val r = VBool True
                  then [CheckLine (h_id h) (h_title h)] else [])
            else map (\<lambda>r. LogLine (h_id h) (h_title h) (val_text (e_val r)) (e_ts r))
                   (filter (\<lambda>r. e_id r = h_id h \<and> is_str (e_val r)) arr))
       (sort_key h_id (filter habit_active habits)))"

definition water_habit :: habit where
  "water_habit = \<lparr>h_id = 3, h_title = str ''Water'', h_tags = None, h_type = None,
                   h_active = None\<rparr>"

definition report_state :: app where
  "report_state =
     \<lparr>habits_json = [water_habit, mood_habit, sleep_habit],
      entries_json = Some [str ''2024-01-01'' \<mapsto>
        [\<lparr>e_id = 1, e_ts = str ''07:00:00'', e_val = VBool True\<rparr>,
         \<lparr>e_id = 2, e_ts = str ''08:00:00'', e_val = VStr (str ''great'')\<rparr>,
         \<lparr>e_id = 3, e_ts = str ''09:00:00'', e_val = VStr (str ''true'')\<rparr>,
         \<lparr>e_id = 2, e_ts = str ''21:00:00'', e_val = VStr (str ''tired'')\<rparr>]],
      day_key = str ''2024-01-01'', filter_tag = None\<rparr>"

section \<open>Allocating the next id\<close>

lemma fold_max_Max: "fold max xs (x::int) = Max (set (x # xs))"
  by (metis Max.set_eq_fold)

text \<open>
  C5: \<open>next_id\<close> is 1 on the empty habit list and the largest id plus 1 on any other, so 4
  (not 2) for the ids 1 and 3.
\<close>

theorem next_id_max:
  "next_id [] = 1 \<and>
   (habits \<noteq> [] \<longrightarrow> next_id habits = Max (set (map h_id habits)) + 1) \<and>
   (map h_id habits = [1, 3] \<longrightarrow> next_id habits = 4)"
proof (intro conjI impI)
  show "next_id [] = 1"
    by (simp add: next_id_def)
next
  assume "habits \<noteq> []"
  then obtain h hs where "habits = h # hs"
    by (cases habits) auto
  then show "next_id habits = Max (set (map h_id habits)) + 1"
    by (simp add: next_id_def fold_max_Max)
next
  assume "map h_id habits = [1, 3]"
  then show "next_id habits = 4"
    by (simp add: next_id_def)
qed

theorem next_id_max_witness:
  "next_id [] = 1 \<and>
   [\<lparr>h_id = 1, h_title = str ''a'', h_tags = None, h_type = None, h_active = None\<rparr>,
    \<lparr>h_id = 3, h_title = str ''b'', h_tags = None, h_type = None, h_active = None\<rparr>] \<noteq> [] \<and>
   next_id
     [\<lparr>h_id = 1, h_title = str ''a'', h_tags = None, h_type = None, h_active = None\<rparr>,
      \<lparr>h_id = 3, h_title = str ''b'', h_tags = None, h_type = None, h_active = None\<rparr>] = 4"
  using next_id_max
    [of "[\<lparr>h_id = 1, h_title = str ''a'', h_tags = None, h_type = None, h_active = None\<rparr>,
          \<lparr>h_id = 3, h_title = str ''b'', h_tags = None, h_type = None, h_active = None\<rparr>]"]
  by simp

section \<open>Toggling a check\<close>

lemma toggle_check_state:
  assumes "find (\<lambda>x. h_id x = hid) (habits_json s) = Some h" "habit_type h = str ''check''"
  shows "habits_json (action_toggle_check (Some hid) now s) = habits_json s"
    and "day_key (action_toggle_check (Some hid) now s) = day_key s"
    and "day_entries (action_toggle_check (Some hid) now s) d =
           (if d = day_key s then toggle_entries hid now (day_entries s d) else day_entries s d)"
  using assms
  by (auto simp: action_toggle_check_def setdefault_def day_entries_def days_of_def Let_def
      split: option.splits)

lemma find_None_filter: "find P xs = None \<longleftrightarrow> filter P xs = []"
  by (induction xs) auto

lemma find_Some_filter: "find P xs = Some x \<Longrightarrow> \<exists>ys. filter P xs = x # ys"
  by (induction xs) (auto split: if_splits)

lemma list_ex_filter: "list_ex P xs \<longleftrightarrow> filter P xs \<noteq> []"
  by (induction xs) auto

text \<open>
  On the true-valued entries of the habit, a toggle drops the first one, or adds one when
  there is none.
\<close>

lemma filter_toggle_entries:
  "filter (\<lambda>r. e_id r = hid \<and> e_val r = VBool True) (toggle_entries hid now arr) =
     (case filter (\<lambda>r. e_id r = hid \<and> e_val r = VBool True) arr of
        [] \<Rightarrow> [\<lparr>e_id = hid, e_ts = now, e_val = VBool True\<rparr>]
      | x # ys \<Rightarrow> ys)"
proof (cases "find (\<lambda>r. e_id r = hid \<and> e_val r = VBool True) arr")
  case None
  moreover from None have "filter (\<lambda>r. e_id r = hid \<and> e_val r = VBool True) arr = []"
    by (simp add: find_None_filter)
  ultimately show ?thesis
    by (simp add: toggle_entries_def)
next
  case (Some ex)
  then obtain ys where "filter (\<lambda>r. e_id r = hid \<and> e_val r = VBool True) arr = ex # ys"
    using find_Some_filter by fastforce
  with Some show ?thesis
    by (simp add: toggle_entries_def filter_remove1)
qed

text \<open>A toggle keeps a day with at most one true-valued entry of the habit that way.\<close>

lemma toggle_entries_single:
  "length (filter (\<lambda>r. e_id r = hid \<and> e_val r = VBool True) arr) \<le> 1 \<Longrightarrow>
   length (filter (\<lambda>r. e_id r = hid \<and> e_val r = VBool True) (toggle_entries hid now arr)) \<le> 1"
  by (auto simp: filter_toggle_entries split: list.splits)

text \<open>
  C1 (amended): for a check-type habit of the habit list, on a day that holds at most one
  true-valued entry of the habit, two toggles in a row bring the completion state of the
  habit on that day back to what it was.
\<close>

theorem toggle_twice:
  assumes "find (\<lambda>x. h_id x = hid) (habits_json s) = Some h"
    and "habit_type h = str ''check''"
    and "length (filter (\<lambda>r. e_id r = hid \<and> e_val r = VBool True)
           (day_entries s (day_key s))) \<le> 1"
  shows "check_done (action_toggle_check (Some hid) t2 (action_toggle_check (Some hid) t1 s))
           hid (day_key s)
         = check_done s hid (day_key s)"
proof -
  let ?P = "\<lambda>r. e_id r = hid \<and> e_val r = VBool True"
  let ?s1 = "action_toggle_check (Some hid) t1 s"
  have 1: "day_entries ?s1 (day_key s) = toggle_entries hid t1 (day_entries s (day_key s))"
    using toggle_check_state(3)[OF assms(1,2)] by simp
  have h1: "find (\<lambda>x. h_id x = hid) (habits_json ?s1) = Some h" "day_key ?s1 = day_key s"
    using toggle_check_state(1,2)[OF assms(1,2)] assms(1) by simp_all
  have 2: "day_entries (action_toggle_check (Some hid) t2 ?s1) (day_key s)
        = toggle_entries hid t2 (toggle_entries hid t1 (day_entries s (day_key s)))"
    using toggle_check_state(3)[OF h1(1) assms(2), of t2 "day_key s"] h1(2) 1 by simp
  show ?thesis
    unfolding check_done_def list_ex_filter 2 filter_toggle_entries
    using assms(3) by (cases "filter ?P (day_entries s (day_key s))") (auto split: list.splits)
qed

theorem toggle_twice_witness:
  "find (\<lambda>x. h_id x = 1) (habits_json checked_once) = Some sleep_habit \<and>
   habit_type sleep_habit = str ''check'' \<and>
   length (filter (\<lambda>r. e_id r = 1 \<and> e_val r = VBool True)
     (day_entries checked_once (day_key checked_once))) \<le> 1 \<and>
   check_done checked_once 1 (day_key checked_once) \<and>
   check_done (action_toggle_check (Some 1) (str ''09:00:01'')
       (action_toggle_check (Some 1) (str ''09:00:00'') checked_once)) 1 (day_key checked_once)"
  using toggle_twice [of 1 checked_once sleep_habit "str ''09:00:01''" "str ''09:00:00''"]
  by (simp add: sleep_habit_def checked_once_def habit_type_def day_entries_def days_of_def
      check_done_def)

text \<open>
  With two true-valued entries of the habit on the day, each toggle removes one of them:
  the habit was done before the two toggles and is not done after them.
\<close>

theorem toggle_twice_counterexample:
  "find (\<lambda>x. h_id x = 1) (habits_json checked_twice) = Some sleep_habit \<and>
   habit_type sleep_habit = str ''check'' \<and>
   check_done checked_twice 1 (day_key checked_twice) \<and>
   \<not> check_done (action_toggle_check (Some 1) (str ''09:00:01'')
       (action_toggle_check (Some 1) (str ''09:00:00'') checked_twice)) 1 (day_key checked_twice)"
  by (simp add: sleep_habit_def checked_twice_def habit_type_def day_entries_def days_of_def
      check_done_def action_toggle_check_def toggle_entries_def setdefault_def str_def Let_def)

section \<open>Deleting a habit\<close>

lemma table_row_id: "row \<in> set (table_row done ftag h) \<Longrightarrow> r_id row = h_id h"
  by (auto simp: table_row_def split: if_splits)

lemma refresh_table_ids:
  "row \<in> set (refresh_table s) \<Longrightarrow> r_id row \<in> h_id ` set (habits_json s)"
  by (auto simp: refresh_table_def Let_def dest: table_row_id)

lemma habit_lines_id: "l \<in> set (habit_lines by_id h) \<Longrightarrow> line_id l = Some (h_id h)"
  by (auto simp: habit_lines_def Let_def split: if_splits val.splits)

lemma show_report_ids:
  "l \<in> set (action_show_report s) \<Longrightarrow> line_id l = Some i \<Longrightarrow> i \<in> h_id ` set (habits_json s)"
  by (auto simp: action_show_report_def Let_def dest!: habit_lines_id)

lemma delete_habit_state:
  "habits_json (action_delete_habit (Some hid) s) = filter (\<lambda>x. h_id x \<noteq> hid) (habits_json s)"
  "days_of (action_delete_habit (Some hid) s) d =
     map_option (filter (\<lambda>r. e_id r \<noteq> hid)) (days_of s d)"
  by (auto simp: action_delete_habit_def days_of_def split: option.splits)

text \<open>
  C2: deleting the habit under the cursor removes every habit with that id from the habit
  list and every entry with that id from every day; no row of the table and no line of the
  report, for any day and filter, names the id afterwards. For an id that is not in the
  habit list, the habit list stays as it is.
\<close>

theorem delete_habit_cascade:
  "habits_json (action_delete_habit (Some hid) s) = filter (\<lambda>x. h_id x \<noteq> hid) (habits_json s) \<and>
   (\<forall>h \<in> set (habits_json (action_delete_habit (Some hid) s)). h_id h \<noteq> hid) \<and>
   (\<forall>d. days_of (action_delete_habit (Some hid) s) d =
          map_option (filter (\<lambda>r. e_id r \<noteq> hid)) (days_of s d)) \<and>
   (\<forall>d. \<forall>r \<in> set (day_entries (action_delete_habit (Some hid) s) d). e_id r \<noteq> hid) \<and>
   (\<forall>d f. \<forall>row \<in> set (refresh_table (action_delete_habit (Some hid) s\<lparr>day_key := d, filter_tag := f\<rparr>)).
            r_id row \<noteq> hid) \<and>
   (\<forall>d. \<forall>l \<in> set (action_show_report (action_delete_habit (Some hid) s\<lparr>day_key := d\<rparr>)).
          line_id l \<noteq> Some hid) \<and>
   (hid \<notin> h_id ` set (habits_json s) \<longrightarrow>
      habits_json (action_delete_habit (Some hid) s) = habits_json s)"
proof -
  let ?s' = "action_delete_habit (Some hid) s"
  have a: "habits_json ?s' = filter (\<lambda>x. h_id x \<noteq> hid) (habits_json s)"
    by (simp add: delete_habit_state)
  then have b: "\<forall>h \<in> set (habits_json ?s'). h_id h \<noteq> hid"
    by simp
  have c: "\<forall>d. days_of ?s' d = map_option (filter (\<lambda>r. e_id r \<noteq> hid)) (days_of s d)"
    by (simp add: delete_habit_state)
  have d: "\<forall>d. \<forall>r \<in> set (day_entries ?s' d). e_id r \<noteq> hid"
    by (auto simp: day_entries_def c split: option.splits)
  have e: "\<forall>d f. \<forall>row \<in> set (refresh_table (?s'\<lparr>day_key := d, filter_tag := f\<rparr>)). r_id row \<noteq> hid"
    using b by (auto dest!: refresh_table_ids)
  have f: "\<forall>d. \<forall>l \<in> set (action_show_report (?s'\<lparr>day_key := d\<rparr>)). line_id l \<noteq> Some hid"
    using b by (auto dest!: show_report_ids)
  have g: "hid \<notin> h_id ` set (habits_json s) \<longrightarrow> habits_json ?s' = habits_json s"
    unfolding a by (auto intro: filter_True)
  from a b c d e f g show ?thesis
    by blast
qed

theorem delete_habit_cascade_witness:
  "habits_json (action_delete_habit (Some 2) two_habits) = [sleep_habit] \<and>
   mood_habit \<in> set (habits_json two_habits) \<and>
   days_of (action_delete_habit (Some 2) two_habits) (str ''2024-01-01'') =
     Some [\<lparr>e_id = 1, e_ts = str ''07:00:00'', e_val = VBool True\<rparr>] \<and>
   refresh_table (action_delete_habit (Some 2) two_habits) =
     [\<lparr>r_mark = True, r_id = 1, r_type = str ''check'', r_title = str ''Sleep by 11'',
       r_tags = []\<rparr>] \<and>
   action_show_report (action_delete_habit (Some 2) two_habits) =
     [Header (str ''2024-01-01''), CheckLine 1 (str ''Sleep by 11'')] \<and>
   3 \<notin> h_id ` set (habits_json two_habits) \<and>
   habits_json (action_delete_habit (Some 3) two_habits) = habits_json two_habits"
  using delete_habit_cascade [of 2 two_habits] delete_habit_cascade [of 3 two_habits]
  by (simp add: two_habits_def sleep_habit_def mood_habit_def days_of_def str_def
      refresh_table_def table_row_def today_done_ids_def day_entries_def habit_active_def
      habit_tags_def habit_type_def action_show_report_def group_by_id_def habit_lines_def
      action_delete_habit_def)

section \<open>Cycling the tag filter\<close>

lemma index_of_nth: "distinct xs \<Longrightarrow> i < length xs \<Longrightarrow> index_of xs (xs ! i) = i"
proof (induction xs arbitrary: i)
  case Nil
  then show ?case by simp
next
  case (Cons x xs)
  then show ?case
    by (cases i) auto
qed

lemma THEMES_distinct: "distinct THEMES" and THEMES_length: "length THEMES = 7"
  by (simp_all add: THEMES_def)

lemma toggle_filter_member:
  assumes "i < 7"
  shows "filter_tag (action_toggle_filter (s\<lparr>filter_tag := Some (THEMES ! i)\<rparr>)) =
         Some (THEMES ! ((i + 1) mod 7))"
proof -
  have "THEMES ! i \<in> set THEMES"
    using assms by (simp add: THEMES_length)
  moreover have "index_of THEMES (THEMES ! i) = i"
    using assms by (simp add: index_of_nth THEMES_distinct THEMES_length)
  moreover have "nat ((int i + 1) mod 7) = (i + 1) mod 7"
    by (simp add: nat_mod_distrib nat_add_distrib)
  ultimately show ?thesis
    by (simp add: action_toggle_filter_def THEMES_length)
qed

text \<open>
  C3 (amended): over the seven themes, the filter action takes no filter to the first
  theme, each theme but the last to the next one, the last theme back to the first, and
  a tag that is not a theme to no filter.
\<close>

theorem toggle_filter_cycle:
  "filter_tag (action_toggle_filter (s\<lparr>filter_tag := None\<rparr>)) = Some (THEMES ! 0) \<and>
   (\<forall>i. i + 1 < length THEMES \<longrightarrow>
      filter_tag (action_toggle_filter (s\<lparr>filter_tag := Some (THEMES ! i)\<rparr>)) =
        Some (THEMES ! (i + 1))) \<and>
   filter_tag (action_toggle_filter (s\<lparr>filter_tag := Some (last THEMES)\<rparr>)) = Some (THEMES ! 0) \<and>
   (\<forall>tag. tag \<notin> set THEMES \<longrightarrow>
      filter_tag (action_toggle_filter (s\<lparr>filter_tag := Some tag\<rparr>)) = None)"
proof (intro conjI allI impI)
  show "filter_tag (action_toggle_filter (s\<lparr>filter_tag := None\<rparr>)) = Some (THEMES ! 0)"
    by (simp add: action_toggle_filter_def)
next
  fix i assume "i + 1 < length THEMES"
  then have "i < 7" "(i + 1) mod 7 = i + 1"
    by (simp_all add: THEMES_length)
  then show "filter_tag (action_toggle_filter (s\<lparr>filter_tag := Some (THEMES ! i)\<rparr>)) =
        Some (THEMES ! (i + 1))"
    using toggle_filter_member [of i s] by simp
next
  have "last THEMES = THEMES ! 6"
    by (simp add: THEMES_def)
  then show "filter_tag (action_toggle_filter (s\<lparr>filter_tag := Some (last THEMES)\<rparr>)) =
        Some (THEMES ! 0)"
    using toggle_filter_member [of 6 s] by simp
next
  fix tag assume "tag \<notin> set THEMES"
  then show "filter_tag (action_toggle_filter (s\<lparr>filter_tag := Some tag\<rparr>)) = None"
    by (simp add: action_toggle_filter_def)
qed

theorem toggle_filter_cycle_witness:
  "(0::nat) + 1 < length THEMES \<and>
   filter_tag (action_toggle_filter (checked_once\<lparr>filter_tag := Some (THEMES ! 0)\<rparr>)) =
     Some (THEMES ! 1) \<and>
   str ''work'' \<notin> set THEMES \<and>
   filter_tag (action_toggle_filter (checked_once\<lparr>filter_tag := Some (str ''work'')\<rparr>)) = None"
proof -
  have len: "(0::nat) + 1 < length THEMES"
    by (simp add: THEMES_def)
  have out: "str ''work'' \<notin> set THEMES"
    by (simp add: THEMES_def str_def)
  note cyc = toggle_filter_cycle [of checked_once]
  from cyc len
  have "filter_tag (action_toggle_filter (checked_once\<lparr>filter_tag := Some (THEMES ! 0)\<rparr>)) =
     Some (THEMES ! (0 + 1))"
    by blast
  moreover from cyc out
  have "filter_tag (action_toggle_filter (checked_once\<lparr>filter_tag := Some (str ''work'')\<rparr>)) = None"
    by blast
  ultimately show ?thesis
    using len out by simp
qed

text \<open>
  The last theme is not followed by "no filter", and a tag outside the list is not
  followed by the first theme.
\<close>

theorem toggle_filter_cycle_counterexample:
  "filter_tag (action_toggle_filter (checked_once\<lparr>filter_tag := Some (last THEMES)\<rparr>)) \<noteq> None \<and>
   str ''work'' \<notin> set THEMES \<and>
   filter_tag (action_toggle_filter (checked_once\<lparr>filter_tag := Some (str ''work'')\<rparr>)) \<noteq>
     Some (THEMES ! 0)"
  by (simp add: action_toggle_filter_def THEMES_def str_def)

section \<open>Saving the edit screen\<close>

lemma find_index_Some:
  "find_index P xs = Some i \<Longrightarrow> i < length xs \<and> P (xs ! i) \<and> (\<forall>j<i. \<not> P (xs ! j))"
proof (induction xs arbitrary: i)
  case Nil
  then show ?case by simp
next
  case (Cons x xs)
  show ?case
  proof (cases "P x")
    case True
    with Cons.prems show ?thesis by simp
  next
    case False
    with Cons.prems obtain k where k: "find_index P xs = Some k" "i = Suc k"
      by auto
    from Cons.IH [OF k(1)] False k(2) show ?thesis
      by (auto simp: less_Suc_eq_0_disj)
  qed
qed

lemma save_add:
  "EditScreen_on_button_pressed Save None ti gi yi s =
     s\<lparr>habits_json := habits_json s @
        [\<lparr>h_id = next_id (habits_json s), h_title = strip ti,
          h_tags = Some (map strip (filter (\<lambda>t. strip t \<noteq> []) (split_on 44 gi))),
          h_type = Some (if strip yi \<noteq> [] then strip yi else str ''check''),
          h_active = Some True\<rparr>]\<rparr>"
  by (simp add: EditScreen_on_button_pressed_def Let_def)

lemma save_edit:
  "i < length (habits_json s) \<Longrightarrow>
   EditScreen_on_button_pressed Save (Some i) ti gi yi s =
     s\<lparr>habits_json := (habits_json s)
        [i := (habits_json s ! i)
           \<lparr>h_title := strip ti,
            h_tags := Some (map strip (filter (\<lambda>t. strip t \<noteq> []) (split_on 44 gi))),
            h_type := Some (if strip yi \<noteq> [] then strip yi else str ''check'')\<rparr>]\<rparr>"
  by (simp add: EditScreen_on_button_pressed_def Let_def)

text \<open>
  C4 (amended): the save of the edit screen does not look at the title. Adding appends
  one habit whose title is the trimmed input, and editing sets the title of the edited
  habit to the trimmed input, also when the trimmed input is empty.
\<close>

theorem save_title_unchecked:
  "(\<exists>h. habits_json (EditScreen_on_button_pressed Save None ti gi yi s) = habits_json s @ [h] \<and>
        h_title h = strip ti) \<and>
   (i < length (habits_json s) \<longrightarrow>
      length (habits_json (EditScreen_on_button_pressed Save (Some i) ti gi yi s)) =
        length (habits_json s) \<and>
      h_title (habits_json (EditScreen_on_button_pressed Save (Some i) ti gi yi s) ! i) = strip ti)"
  by (simp add: save_add save_edit)

theorem save_title_unchecked_witness:
  "strip (str ''  '') = [] \<and>
   (0::nat) < length (habits_json checked_once) \<and>
   length (habits_json (EditScreen_on_button_pressed Save (Some 0) (str ''  '') [] [] checked_once)) =
     length (habits_json checked_once) \<and>
   h_title (habits_json
     (EditScreen_on_button_pressed Save (Some 0) (str ''  '') [] [] checked_once) ! 0) = []"
  using save_title_unchecked [of "str ''  ''" "[]" "[]" checked_once 0]
  by (simp add: checked_once_def strip_def isspace_def str_def)

text \<open>
  A title of two spaces: adding stores a second habit with the empty title, and editing
  the first habit empties its title.
\<close>

theorem save_title_unchecked_counterexample:
  "strip (str ''  '') = [] \<and>
   habits_json (EditScreen_on_button_pressed Save None (str ''  '') [] (str ''check'') checked_once) =
     [sleep_habit,
      \<lparr>h_id = 2, h_title = [], h_tags = Some [], h_type = Some (str ''check''),
        h_active = Some True\<rparr>] \<and>
   action_edit_habit (Some 1) checked_once = Some 0 \<and>
   habits_json (EditScreen_on_button_pressed Save (Some 0) (str ''  '') [] (str ''check'') checked_once) =
     [sleep_habit\<lparr>h_title := []\<rparr>] \<and>
   [sleep_habit\<lparr>h_title := []\<rparr>] \<noteq> habits_json checked_once"
  by (simp add: EditScreen_on_button_pressed_def action_edit_habit_def checked_once_def
      sleep_habit_def next_id_def strip_def isspace_def str_def Let_def)

text \<open>
  C8 (amended): the habit that adding stores has the type \<open>check\<close> when the type input is
  empty after trimming, and the trimmed type input otherwise, whatever it is.
\<close>

theorem add_type_default:
  "(strip yi = [] \<longrightarrow>
      h_type (last (habits_json (EditScreen_on_button_pressed Save None ti gi yi s))) =
        Some (str ''check'')) \<and>
   (strip yi \<noteq> [] \<longrightarrow>
      h_type (last (habits_json (EditScreen_on_button_pressed Save None ti gi yi s))) =
        Some (strip yi))"
  by (simp add: save_add)

theorem add_type_default_witness:
  "strip (str '' '') = [] \<and>
   h_type (last (habits_json
     (EditScreen_on_button_pressed Save None (str ''Walk'') [] (str '' '') checked_once))) =
     Some (str ''check'') \<and>
   strip (str '' log '') \<noteq> [] \<and>
   h_type (last (habits_json
     (EditScreen_on_button_pressed Save None (str ''Walk'') [] (str '' log '') checked_once))) =
     Some (str ''log'')"
  using add_type_default [of "str '' ''" "str ''Walk''" "[]" checked_once]
    add_type_default [of "str '' log ''" "str ''Walk''" "[]" checked_once]
  by (simp add: strip_def isspace_def str_def)

text \<open>The type input \<open>foo\<close> is neither \<open>check\<close> nor \<open>log\<close>, and it is stored as it is.\<close>

theorem add_type_default_counterexample:
  "str ''foo'' \<noteq> str ''check'' \<and> str ''foo'' \<noteq> str ''log'' \<and>
   h_type (last (habits_json
     (EditScreen_on_button_pressed Save None (str ''Walk'') [] (str ''foo'') checked_once))) \<noteq>
     Some (str ''check'')"
  by (simp add: EditScreen_on_button_pressed_def strip_def isspace_def str_def Let_def)

text \<open>
  C9: editing the habit of the row under the cursor replaces the title, the tags and the
  type of that habit (the first one with the id) and nothing else: its id and its
  \<open>active\<close> key, every other habit, the length of the list, the entries, the day and the
  filter stay as they are.
\<close>

theorem edit_habit_frame:
  assumes "action_edit_habit (Some hid) s = Some i"
  shows "i < length (habits_json s) \<and> h_id (habits_json s ! i) = hid \<and>
    habits_json (EditScreen_on_button_pressed Save (Some i) ti gi yi s) =
      (habits_json s)[i := (habits_json s ! i)
         \<lparr>h_title := strip ti,
          h_tags := Some (map strip (filter (\<lambda>t. strip t \<noteq> []) (split_on 44 gi))),
          h_type := Some (if strip yi \<noteq> [] then strip yi else str ''check'')\<rparr>] \<and>
    h_id (habits_json (EditScreen_on_button_pressed Save (Some i) ti gi yi s) ! i) = hid \<and>
    h_active (habits_json (EditScreen_on_button_pressed Save (Some i) ti gi yi s) ! i) =
      h_active (habits_json s ! i) \<and>
    length (habits_json (EditScreen_on_button_pressed Save (Some i) ti gi yi s)) =
      length (habits_json s) \<and>
    (\<forall>j. j \<noteq> i \<longrightarrow>
       habits_json (EditScreen_on_button_pressed Save (Some i) ti gi yi s) ! j = habits_json s ! j) \<and>
    entries_json (EditScreen_on_button_pressed Save (Some i) ti gi yi s) = entries_json s \<and>
    day_key (EditScreen_on_button_pressed Save (Some i) ti gi yi s) = day_key s \<and>
    filter_tag (EditScreen_on_button_pressed Save (Some i) ti gi yi s) = filter_tag s"
proof -
  from assms have i: "i < length (habits_json s)" "h_id (habits_json s ! i) = hid"
    using find_index_Some [of "\<lambda>x. h_id x = hid" "habits_json s" i]
    by (simp_all add: action_edit_habit_def)
  show ?thesis
    using i by (simp add: save_edit)
qed

theorem edit_habit_frame_witness:
  "action_edit_habit (Some 2) two_habits = Some 1 \<and>
   habits_json (EditScreen_on_button_pressed Save (Some 1) (str ''Mood now'') (str ''a, ,b'')
       (str ''check'') two_habits) =
     [sleep_habit,
      \<lparr>h_id = 2, h_title = str ''Mood now'', h_tags = Some [str ''a'', str ''b''],
        h_type = Some (str ''check''), h_active = Some True\<rparr>] \<and>
   entries_json (EditScreen_on_button_pressed Save (Some 1) (str ''Mood now'') (str ''a, ,b'')
       (str ''check'') two_habits) = entries_json two_habits"
  using edit_habit_frame [of 2 two_habits 1 "str ''Mood now''" "str ''a, ,b''" "str ''check''"]
  by (simp add: action_edit_habit_def two_habits_def sleep_habit_def mood_habit_def
      strip_def isspace_def str_def)

section \<open>Appending a log\<close>

lemma log_save_entries:
  "strip S \<noteq> [] \<Longrightarrow>
   day_entries (LogInputScreen_on_button_pressed Save H S now s) d =
     (if d = day_key s
      then day_entries s d @ [\<lparr>e_id = h_id H, e_ts = now, e_val = VStr (strip S)\<rparr>]
      else day_entries s d)"
  by (auto simp: LogInputScreen_on_button_pressed_def setdefault_def day_entries_def days_of_def
      Let_def split: option.splits)

text \<open>
  C6: saving the log screen with a text that is not empty after trimming appends one entry
  (the habit's id, the time, the trimmed text) at the end of the current day's entries:
  the old entries are a prefix of the new ones, so none is removed, and the length grows
  by one; the other days and the habits stay as they are. With a text that trims to empty
  the state is unchanged.
\<close>

theorem append_log_appends:
  "(strip S \<noteq> [] \<longrightarrow>
      day_entries (LogInputScreen_on_button_pressed Save H S now s) (day_key s) =
        day_entries s (day_key s) @ [\<lparr>e_id = h_id H, e_ts = now, e_val = VStr (strip S)\<rparr>] \<and>
      length (day_entries (LogInputScreen_on_button_pressed Save H S now s) (day_key s)) =
        length (day_entries s (day_key s)) + 1 \<and>
      filter (\<lambda>r. e_id r = h_id H)
          (day_entries (LogInputScreen_on_button_pressed Save H S now s) (day_key s)) =
        filter (\<lambda>r. e_id r = h_id H) (day_entries s (day_key s)) @
          [\<lparr>e_id = h_id H, e_ts = now, e_val = VStr (strip S)\<rparr>] \<and>
      (\<forall>d. d \<noteq> day_key s \<longrightarrow>
         day_entries (LogInputScreen_on_button_pressed Save H S now s) d = day_entries s d) \<and>
      habits_json (LogInputScreen_on_button_pressed Save H S now s) = habits_json s) \<and>
   (strip S = [] \<longrightarrow> LogInputScreen_on_button_pressed Save H S now s = s)"
proof (intro conjI impI)
  assume "strip S = []"
  then show "LogInputScreen_on_button_pressed Save H S now s = s"
    by (simp add: LogInputScreen_on_button_pressed_def)
next
  assume "strip S \<noteq> []"
  then show "habits_json (LogInputScreen_on_button_pressed Save H S now s) = habits_json s"
    by (simp add: LogInputScreen_on_button_pressed_def Let_def split: prod.splits)
qed (simp_all add: log_save_entries)

theorem append_log_appends_witness:
  "strip (str '' tired '') \<noteq> [] \<and>
   day_entries (LogInputScreen_on_button_pressed Save mood_habit (str '' tired '')
       (str ''22:00:00'') two_habits) (day_key two_habits) =
     [\<lparr>e_id = 1, e_ts = str ''07:00:00'', e_val = VBool True\<rparr>,
      \<lparr>e_id = 2, e_ts = str ''08:00:00'', e_val = VStr (str ''great'')\<rparr>,
      \<lparr>e_id = 2, e_ts = str ''21:00:00'', e_val = VStr (str ''tired'')\<rparr>,
      \<lparr>e_id = 2, e_ts = str ''22:00:00'', e_val = VStr (str ''tired'')\<rparr>] \<and>
   strip (str ''  '') = [] \<and>
   LogInputScreen_on_button_pressed Save mood_habit (str ''  '') (str ''22:00:00'') two_habits =
     two_habits"
  using append_log_appends [of "str '' tired ''" mood_habit "str ''22:00:00''" two_habits]
    append_log_appends [of "str ''  ''" mood_habit "str ''22:00:00''" two_habits]
  by (simp add: two_habits_def mood_habit_def day_entries_def days_of_def strip_def isspace_def
      str_def)

section \<open>The report\<close>

lemma fold_group_by_id:
  "fold (\<lambda>r by_id. by_id(e_id r \<mapsto> (case by_id (e_id r) of None \<Rightarrow> [] | Some l \<Rightarrow> l) @ [r]))
     arr m i =
   (if filter (\<lambda>r. e_id r = i) arr = [] then m i
    else Some ((case m i of None \<Rightarrow> [] | Some l \<Rightarrow> l) @ filter (\<lambda>r. e_id r = i) arr))"
  by (induction arr arbitrary: m) (auto split: option.splits)

lemma group_by_id_get:
  "(case group_by_id arr i of None \<Rightarrow> [] | Some l \<Rightarrow> l) = filter (\<lambda>r. e_id r = i) arr"
  by (simp add: group_by_id_def fold_group_by_id)

lemma log_lines_filter:
  "concat (map (\<lambda>r. case e_val r of VStr v \<Rightarrow> [LogLine i t v (e_ts r)] | _ \<Rightarrow> []) xs) =
   map (\<lambda>r. LogLine i t (val_text (e_val r)) (e_ts r)) (filter (\<lambda>r. is_str (e_val r)) xs)"
  by (induction xs) (auto split: val.splits)

lemma habit_lines_active:
  "habit_lines (group_by_id arr) h =
     (if \<not> habit_active h then []
      else if habit_type h = str ''check''
      then (if \<exists>r \<in> set arr. e_id r = h_id h \<and> e_val r = VBool True
            then [CheckLine (h_id h) (h_title h)] else [])
      else map (\<lambda>r. LogLine (h_id h) (h_title h) (val_text (e_val r)) (e_ts r))
             (filter (\<lambda>r. e_id r = h_id h \<and> is_str (e_val r)) arr))"
  by (auto simp: habit_lines_def Let_def group_by_id_get log_lines_filter list_ex_iff
      intro: filter_cong)

lemma concat_map_skip:
  "concat (map (\<lambda>h. if \<not> P h then [] else g h) xs) = concat (map g (filter P xs))"
  by (induction xs) auto

lemma show_report_spec:
  "action_show_report s =
     build_report_spec (habits_json s) (day_entries s (day_key s)) (day_key s)"
proof -
  let ?arr = "day_entries s (day_key s)"
  let ?g = "\<lambda>h. if habit_type h = str ''check''
            then (if \<exists>r \<in> set ?arr. e_id r = h_id h \<and> e_val r = VBool True
                  then [CheckLine (h_id h) (h_title h)] else [])
            else map (\<lambda>r. LogLine (h_id h) (h_title h) (val_text (e_val r)) (e_ts r))
                   (filter (\<lambda>r. e_id r = h_id h \<and> is_str (e_val r)) ?arr)"
  have eq: "habit_lines (group_by_id ?arr) = (\<lambda>h. if \<not> habit_active h then [] else ?g h)"
    by (rule ext) (simp add: habit_lines_active)
  have "concat (map (habit_lines (group_by_id ?arr)) (sort_key h_id (habits_json s))) =
        concat (map ?g (sort_key h_id (filter habit_active (habits_json s))))"
    unfolding eq concat_map_skip filter_sort ..
  then show ?thesis
    unfolding action_show_report_def build_report_spec_def Let_def by (rule arg_cong)
qed

text \<open>
  C7: the report is the header followed, for the active habits in ascending id order, by
  the line of each check habit that has an entry of the day with its id and the value
  \<open>True\<close> (a string value, also the string \<open>true\<close>, is not that value), and by one line per
  string-valued entry of the day with its id, in the stored order, for each other habit.
  When no active habit has such an entry, the report is the header alone.
\<close>

theorem show_report_lines:
  "action_show_report s =
     build_report_spec (habits_json s) (day_entries s (day_key s)) (day_key s) \<and>
   sorted (map h_id (sort_key h_id (filter habit_active (habits_json s)))) \<and>
   VStr (str ''true'') \<noteq> VBool True \<and>
   ((\<forall>h \<in> set (habits_json s). habit_active h \<longrightarrow>
       (\<forall>r \<in> set (day_entries s (day_key s)). e_id r = h_id h \<longrightarrow>
          (if habit_type h = str ''check'' then e_val r \<noteq> VBool True else \<not> is_str (e_val r)))) \<longrightarrow>
    action_show_report s = [Header (day_key s)])"
proof (intro conjI impI)
  show "action_show_report s =
     build_report_spec (habits_json s) (day_entries s (day_key s)) (day_key s)"
    by (rule show_report_spec)
next
  show "sorted (map h_id (sort_key h_id (filter habit_active (habits_json s))))"
    by simp
next
  show "VStr (str ''true'') \<noteq> VBool True"
    by simp
next
  assume none: "\<forall>h \<in> set (habits_json s). habit_active h \<longrightarrow>
       (\<forall>r \<in> set (day_entries s (day_key s)). e_id r = h_id h \<longrightarrow>
          (if habit_type h = str ''check'' then e_val r \<noteq> VBool True else \<not> is_str (e_val r)))"
  have "habit_lines (group_by_id (day_entries s (day_key s))) h = []"
    if "h \<in> set (habits_json s)" for h
    using none that by (auto simp: habit_lines_active filter_empty_conv)
  then show "action_show_report s = [Header (day_key s)]"
    by (simp add: action_show_report_def Let_def)
qed

theorem show_report_lines_witness:
  "action_show_report report_state =
     [Header (str ''2024-01-01''),
      CheckLine 1 (str ''Sleep by 11''),
      LogLine 2 (str ''Mood'') (str ''great'') (str ''08:00:00''),
      LogLine 2 (str ''Mood'') (str ''tired'') (str ''21:00:00'')] \<and>
   build_report_spec (habits_json report_state)
       (day_entries report_state (day_key report_state)) (day_key report_state) =
     [Header (str ''2024-01-01''),
      CheckLine 1 (str ''Sleep by 11''),
      LogLine 2 (str ''Mood'') (str ''great'') (str ''08:00:00''),
      LogLine 2 (str ''Mood'') (str ''tired'') (str ''21:00:00'')] \<and>
   day_entries (report_state\<lparr>day_key := str ''2024-01-02''\<rparr>) (str ''2024-01-02'') = [] \<and>
   action_show_report (report_state\<lparr>day_key := str ''2024-01-02''\<rparr>) =
     [Header (str ''2024-01-02'')]"
proof -
  have spec: "build_report_spec (habits_json report_state)
       (day_entries report_state (day_key report_state)) (day_key report_state) =
     [Header (str ''2024-01-01''),
      CheckLine 1 (str ''Sleep by 11''),
      LogLine 2 (str ''Mood'') (str ''great'') (str ''08:00:00''),
      LogLine 2 (str ''Mood'') (str ''tired'') (str ''21:00:00'')]"
    by (simp add: build_report_spec_def report_state_def water_habit_def mood_habit_def
        sleep_habit_def day_entries_def days_of_def habit_active_def habit_type_def str_def)
  have empty: "day_entries (report_state\<lparr>day_key := str ''2024-01-02''\<rparr>) (str ''2024-01-02'') = []"
    by (simp add: report_state_def day_entries_def days_of_def str_def)
  let ?next = "report_state\<lparr>day_key := str ''2024-01-02''\<rparr>"
  from show_report_lines [of report_state]
  have 1: "action_show_report report_state =
      build_report_spec (habits_json report_state)
        (day_entries report_state (day_key report_state)) (day_key report_state)"
    by blast
  have none: "\<forall>h \<in> set (habits_json ?next). habit_active h \<longrightarrow>
       (\<forall>r \<in> set (day_entries ?next (day_key ?next)). e_id r = h_id h \<longrightarrow>
          (if habit_type h = str ''check'' then e_val r \<noteq> VBool True else \<not> is_str (e_val r)))"
    using empty by simp
  from show_report_lines [of ?next] none
  have 2: "action_show_report ?next = [Header (day_key ?next)]"
    by blast
  from 1 2 spec empty show ?thesis
    by simp
qed

section \<open>The done mark of the table\<close>







end
